theory Spec2Isabelle
  imports Complex_Main "HOL-Library.Sublist"
begin

section \<open>JavaScript values as the handlers see them\<close>

text \<open>
  The proxy (\<^verbatim>\<open>src/src/server.ts\<close>, final version, lines 206--588) reads the request
  body that \<^verbatim>\<open>express.json()\<close> parsed, so every field of the body is an arbitrary JSON
  value: the TypeScript interface \<^verbatim>\<open>ChatRequestBody\<close> is erased at run time. A JSON
  number is kept as the numeric value of the parsed number; only its being zero or not is
  ever observed. An object is the list of its properties, each key once. A value that may
  be \<^verbatim>\<open>undefined\<close> is a \<open>json option\<close>, with \<open>None\<close> for \<^verbatim>\<open>undefined\<close>.
\<close>

datatype json =
    JNull
  | JBool bool
  | JNum rat
  | JStr string
  | JArr "json list"
  | JObj "(string \<times> json) list"

text \<open>JavaScript's \<^verbatim>\<open>ToBoolean\<close>, which \<^verbatim>\<open>!x\<close>, \<^verbatim>\<open>x && y\<close>, \<^verbatim>\<open>x || y\<close> and
  \<^verbatim>\<open>x ? y : z\<close> apply: \<^verbatim>\<open>undefined\<close>, \<^verbatim>\<open>null\<close>, \<^verbatim>\<open>false\<close>, \<^verbatim>\<open>0\<close> and \<^verbatim>\<open>""\<close> are falsy; every
  array and every object is truthy, the empty ones too.\<close>

fun truthy :: "json option \<Rightarrow> bool" where
  "truthy None = False"
| "truthy (Some JNull) = False"
| "truthy (Some (JBool b)) = b"
| "truthy (Some (JNum n)) = (n \<noteq> 0)"
| "truthy (Some (JStr s)) = (s \<noteq> [])"
| "truthy (Some (JArr xs)) = True"
| "truthy (Some (JObj kvs)) = True"

text \<open>\<^verbatim>\<open>Array.isArray(v)\<close>, and the elements of an array value.\<close>

fun isArray :: "json option \<Rightarrow> bool" where
  "isArray (Some (JArr xs)) = True"
| "isArray _ = False"

fun elements :: "json option \<Rightarrow> json list" where
  "elements (Some (JArr xs)) = xs"
| "elements _ = []"

text \<open>An object literal \<^verbatim>\<open>{ k1: v1, ... }\<close> as it leaves the process through
  \<^verbatim>\<open>res.json\<close> or the adapter: a property whose value is \<^verbatim>\<open>undefined\<close> is not
  serialised.\<close>

fun js_object :: "(string \<times> json option) list \<Rightarrow> (string \<times> json) list" where
  "js_object [] = []"
| "js_object ((k, None) # kvs) = js_object kvs"
| "js_object ((k, Some v) # kvs) = (k, v) # js_object kvs"

text \<open>\<^verbatim>\<open>s.includes(sub)\<close>: \<open>sub\<close> occurs in \<open>s\<close> as a contiguous run. The keywords
  searched for are ASCII, so searching bytes and searching UTF-16 code units agree.\<close>

fun str_includes :: "string \<Rightarrow> string \<Rightarrow> bool" where
  "str_includes [] sub = (sub = [])"
| "str_includes (c # cs) sub = (prefix sub (c # cs) \<or> str_includes cs sub)"

section \<open>Requests, responses, the log sink and the Ollama adapter\<close>

text \<open>\<^verbatim>\<open>req.method\<close>, \<^verbatim>\<open>req.path\<close> and what \<^verbatim>\<open>express.json()\<close> (line 339) made of the
  body: \<open>Inr\<close> the properties of \<^verbatim>\<open>req.body\<close>, or \<open>Inl\<close> the message of the error the
  parser passed to \<^verbatim>\<open>next\<close> (malformed JSON, body too large).\<close>

record request =
  req_method :: string
  path :: string
  parsed_body :: "string + (string \<times> json) list"

text \<open>The response under construction: \<^verbatim>\<open>res.setHeader\<close>, \<^verbatim>\<open>res.status\<close>, and the body
  sent by \<^verbatim>\<open>res.json\<close> (\<open>None\<close> after \<^verbatim>\<open>res.end()\<close>).\<close>

record response =
  status :: nat
  headers :: "string \<rightharpoonup> string"
  body :: "json option"

definition new_response :: response where
  "new_response = \<lparr>status = 200, headers = Map.empty, body = None\<rparr>"

definition setHeader :: "string \<Rightarrow> string \<Rightarrow> response \<Rightarrow> response" where
  "setHeader k v res = res\<lparr>headers := (headers res)(k \<mapsto> v)\<rparr>"

definition send_json :: "(string \<times> json option) list \<Rightarrow> response \<Rightarrow> response" where
  "send_json kvs res = res\<lparr>body := Some (JObj (js_object kvs))\<rparr>"

definition send_end :: "response \<Rightarrow> response" where
  "send_end res = res\<lparr>body := None\<rparr>"

text \<open>A line of the log file: the level and the message of \<^verbatim>\<open>writeLog\<close>'s entry (the
  timestamp and the details are not kept).\<close>

datatype level = INFO | ERROR | WARN

type_synonym log_entry = "level \<times> string"

text \<open>The argument of \<^verbatim>\<open>ollama.chat\<close> (lines 432--436) and the adapter calls a handler
  makes, in order.\<close>

record chat_request =
  model :: json
  messages :: "json list"
  stream :: bool

datatype ollama_call = Chat chat_request | ListModels

text \<open>What \<^verbatim>\<open>ollama.chat\<close> resolves to, as far as the handler reads it. \<open>message\<close> is
  the properties of \<^verbatim>\<open>response.message\<close>.\<close>

record chat_response =
  message :: "(string \<times> json) list option"
  done_flag :: "json option"
  created_at :: "json option"
  total_duration :: "json option"
  load_duration :: "json option"
  prompt_eval_count :: "json option"
  prompt_eval_duration :: "json option"
  eval_count :: "json option"
  eval_duration :: "json option"

text \<open>A model descriptor of \<^verbatim>\<open>ollama.list\<close> and its answer.\<close>

record model_response =
  name :: "json option"
  modified_at :: "json option"
  size_bytes :: "json option"
  digest :: "json option"

record list_response =
  models :: "model_response list option"

text \<open>The adapter is outside the repository. A call either rejects, and the handler
  computes \<^verbatim>\<open>errorMessage = error instanceof Error ? error.message : String(error)\<close>
  from what was thrown (\<open>Inl errorMessage\<close>), or resolves (\<open>Inr\<close>).\<close>

record ollama =
  ollama_chat :: "chat_request \<Rightarrow> string + chat_response"
  ollama_list :: "string + list_response"

text \<open>What a request leaves behind: the adapter calls made, the log lines written, the
  response sent.\<close>

record outcome =
  calls :: "ollama_call list"
  logs :: "log_entry list"
  response :: response

section \<open>POST /api/chat\<close>

text \<open>Lines 409--421: the turns to forward.\<close>

definition chatMessages :: "json option \<Rightarrow> json option \<Rightarrow> json list" where
  "chatMessages message_field messages_field =
     (if truthy messages_field \<and> isArray messages_field then elements messages_field
      else if truthy message_field then
        [JObj (js_object [(''role'', Some (JStr ''user'')), (''content'', message_field)])]
      else [])"

text \<open>Lines 461--490: the \<^verbatim>\<open>catch\<close> block, classifying by the text of the error.\<close>

definition chat_catch :: "string \<Rightarrow> response \<Rightarrow> log_entry list \<times> response" where
  "chat_catch errorMessage res =
     (if str_includes errorMessage ''connect'' \<or> str_includes errorMessage ''ECONNREFUSED''
         \<or> str_includes errorMessage ''fetch failed'' then
        ([(ERROR, ''Ollama connection error'')],
         send_json [(''success'', Some (JBool False)),
                    (''error'', Some (JStr ''Ollama service unavailable'')),
                    (''message'', Some (JStr
                       ''Could not connect to Ollama. Make sure Ollama is running and accessible.''))]
           (res\<lparr>status := 503\<rparr>))
      else if str_includes errorMessage ''model'' then
        ([(ERROR, ''Model not found'')],
         send_json [(''success'', Some (JBool False)),
                    (''error'', Some (JStr ''Model not found'')),
                    (''message'', Some (JStr errorMessage))]
           (res\<lparr>status := 404\<rparr>))
      else
        ([(ERROR, ''Error calling Ollama API'')],
         send_json [(''success'', Some (JBool False)),
                    (''error'', Some (JStr ''Error calling Ollama'')),
                    (''message'', Some (JStr (if errorMessage \<noteq> [] then errorMessage
                                              else ''Unknown error occurred'')))]
           (res\<lparr>status := 500\<rparr>)))"

text \<open>Line 450: \<^verbatim>\<open>response.message?.content || response.message?.toString()\<close>; a plain
  object's \<^verbatim>\<open>toString()\<close> is \<^verbatim>\<open>"[object Object]"\<close>.\<close>

definition response_text :: "chat_response \<Rightarrow> json option" where
  "response_text r =
     (case message r of
        None \<Rightarrow> None
      | Some m \<Rightarrow> if truthy (map_of m ''content'') then map_of m ''content''
                  else Some (JStr ''[object Object]''))"

text \<open>\<^verbatim>\<open>v ? new Date(v).toISOString() : undefined\<close> (lines 452 and 505). The conversion
  \<open>toISOString\<close> belongs to the platform and is a parameter: \<open>Inr\<close> the ISO string, or
  \<open>Inl\<close> the message of the \<^verbatim>\<open>RangeError\<close> it throws on an invalid date.\<close>

definition iso_or_undefined :: "(json \<Rightarrow> string + string) \<Rightarrow> json option \<Rightarrow> string + json option" where
  "iso_or_undefined toISOString v =
     (case v of
        None \<Rightarrow> Inr None
      | Some d \<Rightarrow> if truthy (Some d)
                  then (case toISOString d of Inl e \<Rightarrow> Inl e | Inr s \<Rightarrow> Inr (Some (JStr s)))
                  else Inr None)"

text \<open>Lines 392--491. The whole body is inside \<^verbatim>\<open>try\<close>, so the error thrown while the
  success body is built reaches the same \<^verbatim>\<open>catch\<close> as a rejection of the adapter.\<close>

definition post_api_chat ::
  "(json \<Rightarrow> string + string) \<Rightarrow> ollama \<Rightarrow> (string \<times> json) list \<Rightarrow> response \<Rightarrow> outcome" where
  "post_api_chat toISOString ol req_body res =
     (let message_field = map_of req_body ''message'';
          model_field = (case map_of req_body ''model'' of None \<Rightarrow> JStr ''llama3.1'' | Some v \<Rightarrow> v);
          messages_field = map_of req_body ''messages''
      in
      if \<not> truthy message_field \<and> \<not> truthy messages_field then
        \<lparr>calls = [],
         logs = [(WARN, ''Validation error: Missing message or messages field'')],
         response = send_json [(''success'', Some (JBool False)),
                               (''error'', Some (JStr ''Missing required field: message or messages''))]
                      (res\<lparr>status := 400\<rparr>)\<rparr>
      else
        let call = \<lparr>model = model_field,
                    messages = chatMessages message_field messages_field,
                    stream = False\<rparr>
        in
        (case ollama_chat ol call of
           Inl errorMessage \<Rightarrow>
             \<lparr>calls = [Chat call],
              logs = (INFO, ''Calling Ollama API'') # fst (chat_catch errorMessage res),
              response = snd (chat_catch errorMessage res)\<rparr>
         | Inr r \<Rightarrow>
             (case iso_or_undefined toISOString (created_at r) of
                Inl errorMessage \<Rightarrow>
                  \<lparr>calls = [Chat call],
                   logs = [(INFO, ''Calling Ollama API''), (INFO, ''Ollama API call successful'')]
                          @ fst (chat_catch errorMessage res),
                   response = snd (chat_catch errorMessage res)\<rparr>
              | Inr created \<Rightarrow>
                  \<lparr>calls = [Chat call],
                   logs = [(INFO, ''Calling Ollama API''), (INFO, ''Ollama API call successful'')],
                   response = send_json
                     [(''success'', Some (JBool True)),
                      (''model'', Some model_field),
                      (''response'', response_text r),
                      (''done'', done_flag r),
                      (''created_at'', created),
                      (''total_duration'', total_duration r),
                      (''load_duration'', load_duration r),
                      (''prompt_eval_count'', prompt_eval_count r),
                      (''prompt_eval_duration'', prompt_eval_duration r),
                      (''eval_count'', eval_count r),
                      (''eval_duration'', eval_duration r)] res\<rparr>)))"

section \<open>GET /api/models\<close>

text \<open>Lines 503--508: the descriptor sent for one model, and the \<^verbatim>\<open>map\<close> over the
  list, which stops at the first descriptor whose date conversion throws.\<close>

definition model_entry :: "(json \<Rightarrow> string + string) \<Rightarrow> model_response \<Rightarrow> string + json" where
  "model_entry toISOString m =
     (case iso_or_undefined toISOString (modified_at m) of
        Inl e \<Rightarrow> Inl e
      | Inr ts \<Rightarrow> Inr (JObj (js_object [(''name'', name m),
                                        (''modified_at'', ts),
                                        (''size'', size_bytes m),
                                        (''digest'', digest m)])))"

fun map_models :: "(json \<Rightarrow> string + string) \<Rightarrow> model_response list \<Rightarrow> string + json list" where
  "map_models toISOString [] = Inr []"
| "map_models toISOString (m # ms) =
     (case model_entry toISOString m of
        Inl e \<Rightarrow> Inl e
      | Inr d \<Rightarrow> (case map_models toISOString ms of Inl e \<Rightarrow> Inl e | Inr ds \<Rightarrow> Inr (d # ds)))"

text \<open>\<^verbatim>\<open>response.models || []\<close>: an array, empty or not, is truthy.\<close>

definition models_or_empty :: "list_response \<Rightarrow> model_response list" where
  "models_or_empty r = (case models r of None \<Rightarrow> [] | Some ms \<Rightarrow> ms)"

definition models_failed :: "string \<Rightarrow> response \<Rightarrow> response" where
  "models_failed msg res =
     send_json [(''success'', Some (JBool False)),
                (''error'', Some (JStr ''Error fetching models'')),
                (''message'', Some (JStr msg))]
       (res\<lparr>status := 500\<rparr>)"

text \<open>Lines 494--518.\<close>

definition get_api_models :: "(json \<Rightarrow> string + string) \<Rightarrow> ollama \<Rightarrow> response \<Rightarrow> outcome" where
  "get_api_models toISOString ol res =
     (case ollama_list ol of
        Inl msg \<Rightarrow>
          \<lparr>calls = [ListModels],
           logs = [(INFO, ''Fetching available models''), (ERROR, ''Error fetching models'')],
           response = models_failed msg res\<rparr>
      | Inr r \<Rightarrow>
          (case map_models toISOString (models_or_empty r) of
             Inl msg \<Rightarrow>
               \<lparr>calls = [ListModels],
                logs = [(INFO, ''Fetching available models''),
                        (INFO, ''Models fetched successfully''),
                        (ERROR, ''Error fetching models'')],
                response = models_failed msg res\<rparr>
           | Inr ds \<Rightarrow>
               \<lparr>calls = [ListModels],
                logs = [(INFO, ''Fetching available models''),
                        (INFO, ''Models fetched successfully'')],
                response = send_json [(''success'', Some (JBool True)),
                                      (''models'', Some (JArr ds))] res\<rparr>))"

section \<open>The application: middleware, routes, fallbacks\<close>

text \<open>Lines 374--380, with the clock's \<^verbatim>\<open>new Date().toISOString()\<close> as a parameter.\<close>

definition get_health :: "string \<Rightarrow> response \<Rightarrow> outcome" where
  "get_health now res =
     \<lparr>calls = [], logs = [],
      response = send_json [(''status'', Some (JStr ''ok'')),
                            (''message'', Some (JStr ''Server is running'')),
                            (''timestamp'', Some (JStr now))] res\<rparr>"

text \<open>Lines 383--389: the explicit \<^verbatim>\<open>OPTIONS\<close> routes.\<close>

definition options_ok :: "response \<Rightarrow> outcome" where
  "options_ok res = \<lparr>calls = [], logs = [], response = send_end (res\<lparr>status := 200\<rparr>)\<rparr>"

text \<open>Lines 520--532: the handler after the last route.\<close>

definition not_found :: "request \<Rightarrow> response \<Rightarrow> outcome" where
  "not_found req res =
     \<lparr>calls = [],
      logs = [(WARN, ''Route not found'')],
      response = send_json [(''success'', Some (JBool False)),
                            (''error'', Some (JStr ''Not found'')),
                            (''message'', Some (JStr (''Route '' @ req_method req @ '' '' @ path req
                                                      @ '' not found'')))]
                   (res\<lparr>status := 404\<rparr>)\<rparr>"

text \<open>Lines 534--542: the error handler, reached when a middleware passes an error to
  \<^verbatim>\<open>next\<close>.\<close>

definition error_handler :: "string \<Rightarrow> response \<Rightarrow> outcome" where
  "error_handler err_message res =
     \<lparr>calls = [],
      logs = [(ERROR, ''Unhandled error in Express middleware'')],
      response = send_json [(''success'', Some (JBool False)),
                            (''error'', Some (JStr ''Internal server error'')),
                            (''message'', Some (JStr err_message))]
                   (res\<lparr>status := 500\<rparr>)\<rparr>"

text \<open>Lines 322--327: the headers the first middleware sets on every response.\<close>

definition cors_headers :: "response \<Rightarrow> response" where
  "cors_headers res =
     setHeader ''Access-Control-Max-Age'' ''86400''
       (setHeader ''Access-Control-Allow-Headers''
          ''Origin, X-Requested-With, Content-Type, Accept, Authorization''
          (setHeader ''Access-Control-Allow-Methods'' ''GET, POST, PUT, DELETE, OPTIONS''
             (setHeader ''Access-Control-Allow-Origin'' ''*'' res)))"

text \<open>The routes in the order of their registration. Whether a request matches a route
  (\<^verbatim>\<open>app.get(pattern, ...)\<close> and so on) is decided by Express, so the matcher
  \<open>matches verb pattern req\<close> is a parameter.\<close>

definition routes :: "(string \<times> string) list" where
  "routes = [(''GET'', ''/health''),
             (''OPTIONS'', ''/api/chat''),
             (''OPTIONS'', ''/api/models''),
             (''POST'', ''/api/chat''),
             (''GET'', ''/api/models'')]"

definition dispatch ::
  "(string \<Rightarrow> string \<Rightarrow> request \<Rightarrow> bool) \<Rightarrow> (json \<Rightarrow> string + string) \<Rightarrow> string \<Rightarrow> ollama
     \<Rightarrow> request \<Rightarrow> (string \<times> json) list \<Rightarrow> response \<Rightarrow> outcome" where
  "dispatch matches toISOString now ol req req_body res =
     (if matches ''GET'' ''/health'' req then get_health now res
      else if matches ''OPTIONS'' ''/api/chat'' req then options_ok res
      else if matches ''OPTIONS'' ''/api/models'' req then options_ok res
      else if matches ''POST'' ''/api/chat'' req then post_api_chat toISOString ol req_body res
      else if matches ''GET'' ''/api/models'' req then get_api_models toISOString ol res
      else not_found req res)"

text \<open>Lines 341--371: the logging middleware writes one line on arrival and one when
  the response is finished, at level ERROR for a status of 400 or more.\<close>

definition request_logging :: "request \<Rightarrow> outcome \<Rightarrow> outcome" where
  "request_logging req out =
     out\<lparr>logs := [(INFO, ''Request: '' @ req_method req @ '' '' @ path req)]
                  @ logs out
                  @ [(if status (response out) \<ge> 400 then ERROR else INFO,
                      ''Response: '' @ req_method req @ '' '' @ path req)]\<rparr>"

text \<open>The middleware stack of lines 321--542, in order: the CORS middleware (which answers
  every \<^verbatim>\<open>OPTIONS\<close> request itself), the JSON body parser (an error there skips
  everything up to the error handler), the logging middleware, the routes, the 404
  handler.\<close>

definition app ::
  "(string \<Rightarrow> string \<Rightarrow> request \<Rightarrow> bool) \<Rightarrow> (json \<Rightarrow> string + string) \<Rightarrow> string \<Rightarrow> ollama
     \<Rightarrow> request \<Rightarrow> outcome" where
  "app matches toISOString now ol req =
     (let res = cors_headers new_response in
      if req_method req = ''OPTIONS'' then
        \<lparr>calls = [], logs = [], response = send_end (res\<lparr>status := 200\<rparr>)\<rparr>
      else
        (case parsed_body req of
           Inl err_message \<Rightarrow> error_handler err_message res
         | Inr req_body \<Rightarrow>
             request_logging req (dispatch matches toISOString now ol req req_body res)))"

section \<open>Concrete collaborators for evaluating the handlers\<close>

text \<open>An adapter whose every call rejects with the given message, and one that is
  healthy: it answers every chat with one completion and lists two models.\<close>

definition failing_ollama :: "string \<Rightarrow> ollama" where
  "failing_ollama msg = \<lparr>ollama_chat = (\<lambda>c. Inl msg), ollama_list = Inl msg\<rparr>"

definition sample_completion :: chat_response where
  "sample_completion =
     \<lparr>message = Some [(''role'', JStr ''assistant''), (''content'', JStr ''Hello!'')],
      done_flag = Some (JBool True),
      created_at = Some (JStr ''2024-01-01T00:00:00Z''),
      total_duration = Some (JNum 5),
      load_duration = Some (JNum 1),
      prompt_eval_count = Some (JNum 2),
      prompt_eval_duration = Some (JNum 1),
      eval_count = Some (JNum 3),
      eval_duration = Some (JNum 3)\<rparr>"

definition sample_models :: "model_response list" where
  "sample_models =
     [\<lparr>name = Some (JStr ''llama3.1''), modified_at = Some (JStr ''2024-01-01T00:00:00Z''),
       size_bytes = Some (JNum 1234567890), digest = Some (JStr ''sha256:abc'')\<rparr>,
      \<lparr>name = Some (JStr ''mistral''), modified_at = None,
       size_bytes = Some (JNum 42), digest = Some (JStr ''sha256:def'')\<rparr>]"

definition sample_ollama :: ollama where
  "sample_ollama = \<lparr>ollama_chat = (\<lambda>c. Inr sample_completion),
                    ollama_list = Inr \<lparr>models = Some sample_models\<rparr>\<rparr>"

text \<open>A healthy adapter whose list answer has no \<^verbatim>\<open>models\<close> property.\<close>

definition bare_ollama :: ollama where
  "bare_ollama = \<lparr>ollama_chat = (\<lambda>c. Inr sample_completion),
                  ollama_list = Inr \<lparr>models = None\<rparr>\<rparr>"

text \<open>A date conversion that knows one timestamp and throws on everything else.\<close>

definition sample_toISOString :: "json \<Rightarrow> string + string" where
  "sample_toISOString d =
     (if d = JStr ''2024-01-01T00:00:00Z'' then Inr ''2024-01-01T00:00:00.000Z''
      else Inl ''Invalid time value'')"

text \<open>The plainest route matcher: the verb and the path are those of the route.\<close>

definition exact_match :: "string \<Rightarrow> string \<Rightarrow> request \<Rightarrow> bool" where
  "exact_match verb pattern req = (req_method req = verb \<and> path req = pattern)"

text \<open>The registered routes a request matches.\<close>

definition matched_routes :: "(string \<Rightarrow> string \<Rightarrow> request \<Rightarrow> bool) \<Rightarrow> request \<Rightarrow> (string \<times> string) list" where
  "matched_routes matches req = filter (\<lambda>(verb, pattern). matches verb pattern req) routes"

section \<open>Facts about the building blocks\<close>

text \<open>\<open>str_includes\<close> is the substring test.\<close>

lemma str_includes_iff: "str_includes s sub \<longleftrightarrow> (\<exists>p q. s = p @ sub @ q)"
proof (induction s)
  case Nil
  then show ?case by auto
next
  case (Cons c cs)
  show ?case
  proof
    assume "str_includes (c # cs) sub"
    then consider "prefix sub (c # cs)" | "str_includes cs sub" by auto
    then show "\<exists>p q. c # cs = p @ sub @ q"
    proof cases
      case 1
      then obtain q where "c # cs = sub @ q" by (auto simp: prefix_def)
      then have "c # cs = [] @ sub @ q" by simp
      then show ?thesis by blast
    next
      case 2
      with Cons.IH obtain p q where "cs = p @ sub @ q" by blast
      then have "c # cs = (c # p) @ sub @ q" by simp
      then show ?thesis by blast
    qed
  next
    assume "\<exists>p q. c # cs = p @ sub @ q"
    then obtain p q where pq: "c # cs = p @ sub @ q" by blast
    show "str_includes (c # cs) sub"
    proof (cases p)
      case Nil
      with pq have "prefix sub (c # cs)" by (simp add: prefix_def)
      then show ?thesis by simp
    next
      case (Cons a p')
      with pq have "cs = p' @ sub @ q" by simp
      with Cons.IH have "str_includes cs sub" by blast
      then show ?thesis by simp
    qed
  qed
qed

text \<open>Serialising an object literal with distinct keys: a property is read back unless
  its value was \<^verbatim>\<open>undefined\<close>.\<close>

lemma js_object_absent: "k \<notin> fst ` set kvs \<Longrightarrow> map_of (js_object kvs) k = None"
  by (induction kvs rule: js_object.induct) auto

lemma js_object_keys: "fst ` set (js_object kvs) \<subseteq> fst ` set kvs"
  by (induction kvs rule: js_object.induct) auto

lemma map_of_js_object:
  "distinct (map fst kvs) \<Longrightarrow>
   map_of (js_object kvs) k = (case map_of kvs k of None \<Rightarrow> None | Some v \<Rightarrow> v)"
  by (induction kvs rule: js_object.induct) (auto simp: js_object_absent)

text \<open>The two ways through the chat handler: rejected by the validation, or one call of
  the adapter.\<close>

lemma chat_rejected:
  assumes "\<not> truthy (map_of b ''message'')" and "\<not> truthy (map_of b ''messages'')"
  shows "post_api_chat t ol b res =
     \<lparr>calls = [],
      logs = [(WARN, ''Validation error: Missing message or messages field'')],
      response = res\<lparr>status := 400,
        body := Some (JObj [(''success'', JBool False),
                 (''error'', JStr ''Missing required field: message or messages'')])\<rparr>\<rparr>"
  using assms by (simp add: post_api_chat_def send_json_def)

lemma chat_calls:
  assumes "truthy (map_of b ''message'') \<or> truthy (map_of b ''messages'')"
  shows "calls (post_api_chat t ol b res) =
     [Chat \<lparr>model = (case map_of b ''model'' of None \<Rightarrow> JStr ''llama3.1'' | Some v \<Rightarrow> v),
            messages = chatMessages (map_of b ''message'') (map_of b ''messages''),
            stream = False\<rparr>]"
  using assms by (auto simp add: post_api_chat_def Let_def split: sum.splits)

lemma chat_failed:
  assumes "truthy (map_of b ''message'') \<or> truthy (map_of b ''messages'')"
    and "ollama_chat ol \<lparr>model = (case map_of b ''model'' of None \<Rightarrow> JStr ''llama3.1'' | Some v \<Rightarrow> v),
            messages = chatMessages (map_of b ''message'') (map_of b ''messages''),
            stream = False\<rparr> = Inl msg"
  shows "response (post_api_chat t ol b res) = snd (chat_catch msg res)"
  using assms by (auto simp add: post_api_chat_def Let_def split: sum.splits)

lemma chat_adapter_failed:
  assumes "calls (post_api_chat t ol b res) = [Chat c]" and "ollama_chat ol c = Inl msg"
  shows "response (post_api_chat t ol b res) = snd (chat_catch msg res)"
proof -
  have acc: "truthy (map_of b ''message'') \<or> truthy (map_of b ''messages'')"
  proof (rule ccontr)
    assume "\<not> ?thesis"
    then have "calls (post_api_chat t ol b res) = []" by (simp add: chat_rejected)
    with assms(1) show False by simp
  qed
  from assms(1) have "c = \<lparr>model = (case map_of b ''model'' of None \<Rightarrow> JStr ''llama3.1'' | Some v \<Rightarrow> v),
            messages = chatMessages (map_of b ''message'') (map_of b ''messages''),
            stream = False\<rparr>"
    unfolding chat_calls [OF acc] by simp
  with assms(2) show ?thesis by (intro chat_failed [OF acc]) simp
qed

lemma chat_catch_status: "status (snd (chat_catch msg res)) \<in> {503, 404, 500}"
  by (simp add: chat_catch_def send_json_def)

lemma chat_status_accepted:
  assumes "truthy (map_of b ''message'') \<or> truthy (map_of b ''messages'')"
  shows "status (response (post_api_chat t ol b res)) \<in> {status res, 503, 404, 500}"
  using assms chat_catch_status [of _ res]
  by (auto simp add: post_api_chat_def Let_def send_json_def split: sum.splits)

text \<open>The handler reads \<^verbatim>\<open>message\<close>, \<^verbatim>\<open>model\<close> and \<^verbatim>\<open>messages\<close> of the body and nothing
  else.\<close>

lemma chat_reads_three_fields:
  assumes "map_of b ''message'' = map_of b' ''message''"
    and "map_of b ''model'' = map_of b' ''model''"
    and "map_of b ''messages'' = map_of b' ''messages''"
  shows "post_api_chat t ol b res = post_api_chat t ol b' res"
  using assms by (simp add: post_api_chat_def)

text \<open>What a successful conversion of the model list looks like.\<close>

lemma iso_or_undefined_Inr:
  assumes "iso_or_undefined t v = Inr ts"
  shows "(\<not> truthy v \<and> ts = None) \<or> (\<exists>d s. v = Some d \<and> truthy v \<and> t d = Inr s \<and> ts = Some (JStr s))"
  using assms by (auto simp: iso_or_undefined_def split: option.splits if_splits sum.splits)

lemma model_entry_Inr:
  assumes "model_entry t m = Inr d"
  shows "\<exists>fs. d = JObj fs
      \<and> fst ` set fs \<subseteq> {''name'', ''modified_at'', ''size'', ''digest''}
      \<and> map_of fs ''name'' = name m \<and> map_of fs ''size'' = size_bytes m
      \<and> map_of fs ''digest'' = digest m
      \<and> ((\<not> truthy (modified_at m) \<and> map_of fs ''modified_at'' = None)
         \<or> (\<exists>v s. modified_at m = Some v \<and> t v = Inr s \<and> map_of fs ''modified_at'' = Some (JStr s)))"
proof -
  from assms obtain ts where ts: "iso_or_undefined t (modified_at m) = Inr ts"
    and d: "d = JObj (js_object [(''name'', name m), (''modified_at'', ts),
                                 (''size'', size_bytes m), (''digest'', digest m)])"
    by (auto simp: model_entry_def split: sum.splits)
  let ?kvs = "[(''name'', name m), (''modified_at'', ts),
               (''size'', size_bytes m), (''digest'', digest m)]"
  let ?fs = "js_object ?kvs"
  have "fst ` set ?fs \<subseteq> fst ` set ?kvs" by (rule js_object_keys)
  then have keys: "fst ` set ?fs \<subseteq> {''name'', ''modified_at'', ''size'', ''digest''}"
    by auto
  have "map_of ?fs ''name'' = name m" by (subst map_of_js_object) simp_all
  moreover have "map_of ?fs ''size'' = size_bytes m" by (subst map_of_js_object) simp_all
  moreover have "map_of ?fs ''digest'' = digest m" by (subst map_of_js_object) simp_all
  moreover have "map_of ?fs ''modified_at'' = ts" by (subst map_of_js_object) simp_all
  ultimately show ?thesis using d keys iso_or_undefined_Inr [OF ts] by auto
qed

lemma map_models_Inr:
  assumes "map_models t ms = Inr ds"
  shows "length ds = length ms \<and> (\<forall>i<length ms. model_entry t (ms ! i) = Inr (ds ! i))"
  using assms
proof (induction ms arbitrary: ds)
  case Nil
  then show ?case by simp
next
  case (Cons m ms)
  from Cons.prems obtain d ds' where d: "model_entry t m = Inr d"
    and ds': "map_models t ms = Inr ds'" and ds: "ds = d # ds'"
    by (auto split: sum.splits)
  from Cons.IH [OF ds'] have len: "length ds' = length ms"
    and ih: "\<forall>i<length ms. model_entry t (ms ! i) = Inr (ds' ! i)" by simp_all
  show ?case
  proof (intro conjI allI impI)
    show "length ds = length (m # ms)" using len ds by simp
  next
    fix i assume "i < length (m # ms)"
    then show "model_entry t ((m # ms) ! i) = Inr (ds ! i)"
      using d ih ds by (cases i) simp_all
  qed
qed

lemma models_success:
  assumes "body (response (get_api_models t ol res)) = Some (JObj fs)"
    and "map_of fs ''success'' = Some (JBool True)"
  shows "\<exists>r ds. ollama_list ol = Inr r \<and> map_models t (models_or_empty r) = Inr ds
            \<and> fs = [(''success'', JBool True), (''models'', JArr ds)]"
  using assms
  by (auto simp: get_api_models_def models_failed_def send_json_def split: sum.splits)

text \<open>A request that matches no route falls through to the 404 handler.\<close>

lemma no_route_dispatch:
  assumes "matched_routes matches req = []"
  shows "dispatch matches t now ol req b res = not_found req res"
  using assms by (simp add: matched_routes_def routes_def dispatch_def split: if_splits)

section \<open>The claims\<close>

subsection \<open>C1: requests without a message\<close>

text \<open>C1, as the code has it. For every body of \<^verbatim>\<open>POST /api/chat\<close> in which \<^verbatim>\<open>message\<close> and
  \<^verbatim>\<open>messages\<close> are both falsy (absent, \<^verbatim>\<open>null\<close>, \<^verbatim>\<open>false\<close>, \<^verbatim>\<open>0\<close> or the empty string),
  the handler answers 400 with the body
  \<^verbatim>\<open>{ success:false, error:"Missing required field: message or messages" }\<close> and the adapter
  is not called.\<close>

theorem C1_missing_fields_rejected:
  assumes "\<not> truthy (map_of b ''message'')" and "\<not> truthy (map_of b ''messages'')"
  shows "calls (post_api_chat t ol b res) = []
       \<and> status (response (post_api_chat t ol b res)) = 400
       \<and> body (response (post_api_chat t ol b res))
         = Some (JObj [(''success'', JBool False),
                       (''error'', JStr ''Missing required field: message or messages'')])"
  using assms by (simp add: chat_rejected)

theorem C1_missing_fields_rejected_witness:
  "\<not> truthy (map_of [(''message'', JStr ''''), (''messages'', JNull), (''model'', JStr ''llama3.1'')] ''message'')
   \<and> \<not> truthy (map_of [(''message'', JStr ''''), (''messages'', JNull), (''model'', JStr ''llama3.1'')] ''messages'')
   \<and> calls (post_api_chat sample_toISOString sample_ollama
        [(''message'', JStr ''''), (''messages'', JNull), (''model'', JStr ''llama3.1'')] new_response) = []
   \<and> status (response (post_api_chat sample_toISOString sample_ollama
        [(''message'', JStr ''''), (''messages'', JNull), (''model'', JStr ''llama3.1'')] new_response)) = 400
   \<and> body (response (post_api_chat sample_toISOString sample_ollama
        [(''message'', JStr ''''), (''messages'', JNull), (''model'', JStr ''llama3.1'')] new_response))
      = Some (JObj [(''success'', JBool False),
                    (''error'', JStr ''Missing required field: message or messages'')])"
proof -
  let ?b = "[(''message'', JStr ''''), (''messages'', JNull), (''model'', JStr ''llama3.1'')]"
  have h1: "\<not> truthy (map_of ?b ''message'')" by simp
  have h2: "\<not> truthy (map_of ?b ''messages'')" by simp
  show ?thesis
    using h1 h2 C1_missing_fields_rejected [OF h1 h2, of sample_toISOString sample_ollama new_response]
    by blast
qed

text \<open>C1 as worded also covers an empty \<^verbatim>\<open>messages\<close> array. An empty array is truthy:
  the body \<^verbatim>\<open>{ "messages": [] }\<close> has no \<^verbatim>\<open>message\<close> and an empty \<^verbatim>\<open>messages\<close>, yet it is
  answered 200 by a healthy adapter, which was called with no turns.\<close>

theorem C1_counterexample:
  "map_of [(''messages'', JArr [])] ''message'' = None
   \<and> map_of [(''messages'', JArr [])] ''messages'' = Some (JArr [])
   \<and> status (response (post_api_chat sample_toISOString sample_ollama
        [(''messages'', JArr [])] new_response)) = 200
   \<and> calls (post_api_chat sample_toISOString sample_ollama
        [(''messages'', JArr [])] new_response)
      = [Chat \<lparr>model = JStr ''llama3.1'', messages = [], stream = False\<rparr>]"
proof -
  let ?b = "[(''messages'', JArr [])]"
  have acc: "truthy (map_of ?b ''message'') \<or> truthy (map_of ?b ''messages'')" by simp
  have "status (response (post_api_chat sample_toISOString sample_ollama ?b new_response)) = 200"
    by (simp add: post_api_chat_def Let_def sample_ollama_def sample_completion_def
        iso_or_undefined_def sample_toISOString_def send_json_def new_response_def)
  moreover have "calls (post_api_chat sample_toISOString sample_ollama ?b new_response)
      = [Chat \<lparr>model = JStr ''llama3.1'', messages = [], stream = False\<rparr>]"
    by (simp add: chat_calls [OF acc] chatMessages_def)
  ultimately show ?thesis by simp
qed

subsection \<open>C2: a conversation is forwarded as it is\<close>

text \<open>C2. When the body holds a non-empty \<^verbatim>\<open>messages\<close> array, the adapter's chat operation
  is called once and the turns it receives are that array: the same elements in the same
  order.\<close>

theorem C2_messages_forwarded_verbatim:
  assumes "map_of b ''messages'' = Some (JArr xs)" and "xs \<noteq> []"
  shows "\<exists>c. calls (post_api_chat t ol b res) = [Chat c] \<and> messages c = xs"
  using assms by (simp add: chat_calls chatMessages_def)

theorem C2_messages_forwarded_verbatim_witness:
  "map_of [(''messages'', JArr [JObj [(''role'', JStr ''user''), (''content'', JStr ''Hello!'')],
                                JObj [(''role'', JStr ''assistant''), (''content'', JStr ''Hi there!'')],
                                JObj [(''role'', JStr ''user''), (''content'', JStr ''Tell me a joke'')]]),
           (''model'', JStr ''llama3.1'')] ''messages''
     = Some (JArr [JObj [(''role'', JStr ''user''), (''content'', JStr ''Hello!'')],
                   JObj [(''role'', JStr ''assistant''), (''content'', JStr ''Hi there!'')],
                   JObj [(''role'', JStr ''user''), (''content'', JStr ''Tell me a joke'')]])
   \<and> (\<exists>c. calls (post_api_chat sample_toISOString sample_ollama
          [(''messages'', JArr [JObj [(''role'', JStr ''user''), (''content'', JStr ''Hello!'')],
                                JObj [(''role'', JStr ''assistant''), (''content'', JStr ''Hi there!'')],
                                JObj [(''role'', JStr ''user''), (''content'', JStr ''Tell me a joke'')]]),
           (''model'', JStr ''llama3.1'')] new_response) = [Chat c]
        \<and> messages c = [JObj [(''role'', JStr ''user''), (''content'', JStr ''Hello!'')],
                   JObj [(''role'', JStr ''assistant''), (''content'', JStr ''Hi there!'')],
                   JObj [(''role'', JStr ''user''), (''content'', JStr ''Tell me a joke'')]])"
proof -
  let ?xs = "[JObj [(''role'', JStr ''user''), (''content'', JStr ''Hello!'')],
                   JObj [(''role'', JStr ''assistant''), (''content'', JStr ''Hi there!'')],
                   JObj [(''role'', JStr ''user''), (''content'', JStr ''Tell me a joke'')]]"
  let ?b = "[(''messages'', JArr ?xs), (''model'', JStr ''llama3.1'')]"
  have h1: "map_of ?b ''messages'' = Some (JArr ?xs)" by simp
  have h2: "?xs \<noteq> []" by simp
  show ?thesis
    using h1 C2_messages_forwarded_verbatim [OF h1 h2, of sample_toISOString sample_ollama new_response]
    by blast
qed

subsection \<open>C3: a single message becomes one user turn\<close>

text \<open>C3. When the body has a non-empty string \<^verbatim>\<open>message\<close> and no \<^verbatim>\<open>messages\<close> field, the
  adapter's chat operation is called once with exactly one turn, of role \<^verbatim>\<open>"user"\<close> and
  with the message as its content.\<close>

theorem C3_single_message_wrapped:
  assumes "map_of b ''message'' = Some (JStr s)" and "s \<noteq> []"
    and "map_of b ''messages'' = None"
  shows "\<exists>c. calls (post_api_chat t ol b res) = [Chat c]
            \<and> messages c = [JObj [(''role'', JStr ''user''), (''content'', JStr s)]]"
  using assms by (simp add: chat_calls chatMessages_def)

theorem C3_single_message_wrapped_witness:
  "map_of [(''message'', JStr ''hi''), (''model'', JStr ''llama3.1'')] ''message'' = Some (JStr ''hi'')
   \<and> map_of [(''message'', JStr ''hi''), (''model'', JStr ''llama3.1'')] ''messages'' = None
   \<and> (\<exists>c. calls (post_api_chat sample_toISOString sample_ollama
          [(''message'', JStr ''hi''), (''model'', JStr ''llama3.1'')] new_response) = [Chat c]
        \<and> messages c = [JObj [(''role'', JStr ''user''), (''content'', JStr ''hi'')]])"
proof -
  let ?b = "[(''message'', JStr ''hi''), (''model'', JStr ''llama3.1'')]"
  have h1: "map_of ?b ''message'' = Some (JStr ''hi'')" by simp
  have h2: "''hi'' \<noteq> []" by simp
  have h3: "map_of ?b ''messages'' = None" by simp
  show ?thesis
    using h1 h3 C3_single_message_wrapped [OF h1 h2 h3, of sample_toISOString sample_ollama new_response]
    by blast
qed

subsection \<open>C4: streaming is forced off\<close>

text \<open>C4. Every chat call the handler makes has \<^verbatim>\<open>stream = false\<close>, and two bodies that
  agree on every field other than \<^verbatim>\<open>stream\<close> lead to the same adapter calls.\<close>

theorem C4_stream_forced_off:
  "(\<forall>c. Chat c \<in> set (calls (post_api_chat t ol b res)) \<longrightarrow> stream c = False)
   \<and> ((\<forall>k. k \<noteq> ''stream'' \<longrightarrow> map_of b k = map_of b' k)
        \<longrightarrow> calls (post_api_chat t ol b res) = calls (post_api_chat t ol b' res))"
proof (intro conjI allI impI)
  fix c
  assume c: "Chat c \<in> set (calls (post_api_chat t ol b res))"
  show "stream c = False"
  proof (cases "truthy (map_of b ''message'') \<or> truthy (map_of b ''messages'')")
    case True
    from c show ?thesis unfolding chat_calls [OF True] by auto
  next
    case False
    with c show ?thesis by (simp add: chat_rejected)
  qed
next
  assume "\<forall>k. k \<noteq> ''stream'' \<longrightarrow> map_of b k = map_of b' k"
  then have "post_api_chat t ol b res = post_api_chat t ol b' res"
    by (intro chat_reads_three_fields) simp_all
  then show "calls (post_api_chat t ol b res) = calls (post_api_chat t ol b' res)"
    by simp
qed

theorem C4_stream_forced_off_witness:
  "calls (post_api_chat sample_toISOString sample_ollama
      [(''message'', JStr ''hi''), (''stream'', JBool True)] new_response)
   = calls (post_api_chat sample_toISOString sample_ollama
      [(''message'', JStr ''hi''), (''stream'', JBool False)] new_response)
   \<and> calls (post_api_chat sample_toISOString sample_ollama
      [(''message'', JStr ''hi''), (''stream'', JBool True)] new_response)
     = [Chat \<lparr>model = JStr ''llama3.1'',
              messages = [JObj [(''role'', JStr ''user''), (''content'', JStr ''hi'')]],
              stream = False\<rparr>]"
proof -
  let ?b = "[(''message'', JStr ''hi''), (''stream'', JBool True)]"
  let ?b' = "[(''message'', JStr ''hi''), (''stream'', JBool False)]"
  have h: "\<forall>k. k \<noteq> ''stream'' \<longrightarrow> map_of ?b k = map_of ?b' k" by simp
  have acc: "truthy (map_of ?b ''message'') \<or> truthy (map_of ?b ''messages'')" by simp
  have c: "calls (post_api_chat sample_toISOString sample_ollama ?b new_response)
     = [Chat \<lparr>model = JStr ''llama3.1'',
              messages = [JObj [(''role'', JStr ''user''), (''content'', JStr ''hi'')]],
              stream = False\<rparr>]"
    by (simp add: chat_calls [OF acc] chatMessages_def)
  show ?thesis
    using h c C4_stream_forced_off [of sample_toISOString sample_ollama ?b new_response ?b']
    by blast
qed

subsection \<open>C5: connection failures\<close>

text \<open>C5. When the adapter's chat call fails with a message that contains \<^verbatim>\<open>connect\<close>,
  \<^verbatim>\<open>ECONNREFUSED\<close> or \<^verbatim>\<open>fetch failed\<close>, the answer is 503 with \<^verbatim>\<open>success\<close> false and
  \<^verbatim>\<open>error\<close> equal to \<^verbatim>\<open>"Ollama service unavailable"\<close>.\<close>

theorem C5_connection_failure_503:
  assumes "calls (post_api_chat t ol b res) = [Chat c]" and "ollama_chat ol c = Inl msg"
    and "str_includes msg ''connect'' \<or> str_includes msg ''ECONNREFUSED''
         \<or> str_includes msg ''fetch failed''"
  shows "status (response (post_api_chat t ol b res)) = 503
       \<and> body (response (post_api_chat t ol b res))
         = Some (JObj [(''success'', JBool False),
                       (''error'', JStr ''Ollama service unavailable''),
                       (''message'', JStr
                          ''Could not connect to Ollama. Make sure Ollama is running and accessible.'')])"
  using assms(3) unfolding chat_adapter_failed [OF assms(1,2)]
  by (simp add: chat_catch_def send_json_def)

theorem C5_connection_failure_503_witness:
  "calls (post_api_chat sample_toISOString (failing_ollama ''connect ECONNREFUSED 127.0.0.1:11434'')
      [(''message'', JStr ''hi'')] new_response)
     = [Chat \<lparr>model = JStr ''llama3.1'',
              messages = [JObj [(''role'', JStr ''user''), (''content'', JStr ''hi'')]],
              stream = False\<rparr>]
   \<and> str_includes ''connect ECONNREFUSED 127.0.0.1:11434'' ''ECONNREFUSED''
   \<and> status (response (post_api_chat sample_toISOString
        (failing_ollama ''connect ECONNREFUSED 127.0.0.1:11434'')
        [(''message'', JStr ''hi'')] new_response)) = 503
   \<and> body (response (post_api_chat sample_toISOString
        (failing_ollama ''connect ECONNREFUSED 127.0.0.1:11434'')
        [(''message'', JStr ''hi'')] new_response))
      = Some (JObj [(''success'', JBool False),
                    (''error'', JStr ''Ollama service unavailable''),
                    (''message'', JStr
                       ''Could not connect to Ollama. Make sure Ollama is running and accessible.'')])"
proof -
  let ?msg = "''connect ECONNREFUSED 127.0.0.1:11434''"
  let ?b = "[(''message'', JStr ''hi'')]"
  let ?c = "\<lparr>model = JStr ''llama3.1'',
              messages = [JObj [(''role'', JStr ''user''), (''content'', JStr ''hi'')]],
              stream = False\<rparr>"
  have acc: "truthy (map_of ?b ''message'') \<or> truthy (map_of ?b ''messages'')" by simp
  have h1: "calls (post_api_chat sample_toISOString (failing_ollama ?msg) ?b new_response) = [Chat ?c]"
    by (simp add: chat_calls [OF acc] chatMessages_def)
  have h2: "ollama_chat (failing_ollama ?msg) ?c = Inl ?msg" by (simp add: failing_ollama_def)
  have inc: "str_includes ?msg ''ECONNREFUSED''" by simp
  then have h3: "str_includes ?msg ''connect'' \<or> str_includes ?msg ''ECONNREFUSED''
         \<or> str_includes ?msg ''fetch failed''" by blast
  show ?thesis
    using h1 inc C5_connection_failure_503 [OF h1 h2 h3]
    by blast
qed

subsection \<open>C6: model failures\<close>

text \<open>C6. When the adapter's chat call fails with a message that contains \<^verbatim>\<open>model\<close>: if
  the message contains none of the connection keywords the answer is 404 with \<^verbatim>\<open>error\<close>
  equal to \<^verbatim>\<open>"Model not found"\<close> and \<^verbatim>\<open>message\<close> equal to the adapter's message; if it
  contains one of them, the connection branch wins and the answer is 503.\<close>

theorem C6_model_failure_404:
  assumes "calls (post_api_chat t ol b res) = [Chat c]" and "ollama_chat ol c = Inl msg"
    and "str_includes msg ''model''"
  shows "(\<not> (str_includes msg ''connect'' \<or> str_includes msg ''ECONNREFUSED''
              \<or> str_includes msg ''fetch failed'')
          \<longrightarrow> status (response (post_api_chat t ol b res)) = 404
            \<and> body (response (post_api_chat t ol b res))
              = Some (JObj [(''success'', JBool False),
                            (''error'', JStr ''Model not found''),
                            (''message'', JStr msg)]))
       \<and> (str_includes msg ''connect'' \<or> str_includes msg ''ECONNREFUSED''
              \<or> str_includes msg ''fetch failed''
          \<longrightarrow> status (response (post_api_chat t ol b res)) = 503
            \<and> body (response (post_api_chat t ol b res))
              = Some (JObj [(''success'', JBool False),
                       (''error'', JStr ''Ollama service unavailable''),
                       (''message'', JStr
                          ''Could not connect to Ollama. Make sure Ollama is running and accessible.'')]))"
  using assms(3) unfolding chat_adapter_failed [OF assms(1,2)]
  by (simp add: chat_catch_def send_json_def)

theorem C6_model_failure_404_witness:
  "str_includes ''model nope not found, try pulling it first'' ''model''
   \<and> \<not> str_includes ''model nope not found, try pulling it first'' ''connect''
   \<and> \<not> str_includes ''model nope not found, try pulling it first'' ''ECONNREFUSED''
   \<and> \<not> str_includes ''model nope not found, try pulling it first'' ''fetch failed''
   \<and> status (response (post_api_chat sample_toISOString
        (failing_ollama ''model nope not found, try pulling it first'')
        [(''message'', JStr ''hi''), (''model'', JStr ''nope'')] new_response)) = 404
   \<and> body (response (post_api_chat sample_toISOString
        (failing_ollama ''model nope not found, try pulling it first'')
        [(''message'', JStr ''hi''), (''model'', JStr ''nope'')] new_response))
      = Some (JObj [(''success'', JBool False),
                    (''error'', JStr ''Model not found''),
                    (''message'', JStr ''model nope not found, try pulling it first'')])
   \<and> str_includes ''model runner could not connect'' ''model''
   \<and> str_includes ''model runner could not connect'' ''connect''
   \<and> status (response (post_api_chat sample_toISOString
        (failing_ollama ''model runner could not connect'')
        [(''message'', JStr ''hi''), (''model'', JStr ''nope'')] new_response)) = 503"
proof -
  let ?m1 = "''model nope not found, try pulling it first''"
  let ?m2 = "''model runner could not connect''"
  let ?b = "[(''message'', JStr ''hi''), (''model'', JStr ''nope'')]"
  let ?c = "\<lparr>model = JStr ''nope'',
              messages = [JObj [(''role'', JStr ''user''), (''content'', JStr ''hi'')]],
              stream = False\<rparr>"
  have acc: "truthy (map_of ?b ''message'') \<or> truthy (map_of ?b ''messages'')" by simp
  have c1: "calls (post_api_chat sample_toISOString (failing_ollama ?m1) ?b new_response) = [Chat ?c]"
    by (simp add: chat_calls [OF acc] chatMessages_def)
  have c2: "calls (post_api_chat sample_toISOString (failing_ollama ?m2) ?b new_response) = [Chat ?c]"
    by (simp add: chat_calls [OF acc] chatMessages_def)
  have f1: "ollama_chat (failing_ollama ?m1) ?c = Inl ?m1" by (simp add: failing_ollama_def)
  have f2: "ollama_chat (failing_ollama ?m2) ?c = Inl ?m2" by (simp add: failing_ollama_def)
  have i1: "str_includes ?m1 ''model''" by simp
  have n1: "\<not> str_includes ?m1 ''connect''" by simp
  have n2: "\<not> str_includes ?m1 ''ECONNREFUSED''" by simp
  have n3: "\<not> str_includes ?m1 ''fetch failed''" by simp
  have i2: "str_includes ?m2 ''model''" by simp
  have k2: "str_includes ?m2 ''connect''" by simp
  show ?thesis
    using i1 n1 n2 n3 i2 k2 C6_model_failure_404 [OF c1 f1 i1] C6_model_failure_404 [OF c2 f2 i2]
    by blast
qed

subsection \<open>C7: the system prompt is not forwarded\<close>

text \<open>C7. Two bodies that agree on every field other than \<^verbatim>\<open>system\<close> lead to the same
  adapter calls: the same model, turns and stream flag.\<close>

theorem C7_system_not_forwarded:
  assumes "\<forall>k. k \<noteq> ''system'' \<longrightarrow> map_of b k = map_of b' k"
  shows "calls (post_api_chat t ol b res) = calls (post_api_chat t ol b' res)"
proof -
  from assms have "post_api_chat t ol b res = post_api_chat t ol b' res"
    by (intro chat_reads_three_fields) simp_all
  then show ?thesis by simp
qed

theorem C7_system_not_forwarded_witness:
  "calls (post_api_chat sample_toISOString sample_ollama
      [(''message'', JStr ''hi''), (''system'', JStr ''You are a helpful assistant.'')] new_response)
   = calls (post_api_chat sample_toISOString sample_ollama
      [(''message'', JStr ''hi'')] new_response)
   \<and> calls (post_api_chat sample_toISOString sample_ollama
      [(''message'', JStr ''hi''), (''system'', JStr ''You are a helpful assistant.'')] new_response)
     = [Chat \<lparr>model = JStr ''llama3.1'',
              messages = [JObj [(''role'', JStr ''user''), (''content'', JStr ''hi'')]],
              stream = False\<rparr>]"
proof -
  let ?b = "[(''message'', JStr ''hi''), (''system'', JStr ''You are a helpful assistant.'')]"
  let ?b' = "[(''message'', JStr ''hi'')]"
  have h: "\<forall>k. k \<noteq> ''system'' \<longrightarrow> map_of ?b k = map_of ?b' k" by simp
  have acc: "truthy (map_of ?b ''message'') \<or> truthy (map_of ?b ''messages'')" by simp
  have c: "calls (post_api_chat sample_toISOString sample_ollama ?b new_response)
     = [Chat \<lparr>model = JStr ''llama3.1'',
              messages = [JObj [(''role'', JStr ''user''), (''content'', JStr ''hi'')]],
              stream = False\<rparr>]"
    by (simp add: chat_calls [OF acc] chatMessages_def)
  show ?thesis
    using c C7_system_not_forwarded [OF h, of sample_toISOString sample_ollama new_response]
    by blast
qed

subsection \<open>C8: the model list\<close>

text \<open>C8. Every successful answer of \<^verbatim>\<open>GET /api/models\<close> comes from a list answer of the
  adapter, and its \<^verbatim>\<open>models\<close> array has one descriptor for each descriptor in the
  adapter's \<^verbatim>\<open>models\<close> (none when the adapter's answer has no \<^verbatim>\<open>models\<close>), in the same
  order, with the same \<^verbatim>\<open>name\<close>, \<^verbatim>\<open>size\<close> and \<^verbatim>\<open>digest\<close> and no field besides these and
  \<^verbatim>\<open>modified_at\<close>; its \<^verbatim>\<open>modified_at\<close> is the ISO string of the adapter's timestamp, or is
  left out when the adapter's timestamp is falsy.\<close>

theorem C8_models_fields_preserved:
  assumes "body (response (get_api_models t ol res)) = Some (JObj fs)"
    and "map_of fs ''success'' = Some (JBool True)"
  shows "\<exists>r ds. ollama_list ol = Inr r
      \<and> map_of fs ''models'' = Some (JArr ds)
      \<and> (case models r of
           None \<Rightarrow> ds = []
         | Some ms \<Rightarrow>
             length ds = length ms
             \<and> (\<forall>i<length ms. \<exists>d. ds ! i = JObj d
                   \<and> fst ` set d \<subseteq> {''name'', ''modified_at'', ''size'', ''digest''}
                   \<and> map_of d ''name'' = name (ms ! i)
                   \<and> map_of d ''size'' = size_bytes (ms ! i)
                   \<and> map_of d ''digest'' = digest (ms ! i)
                   \<and> ((\<not> truthy (modified_at (ms ! i)) \<and> map_of d ''modified_at'' = None)
                      \<or> (\<exists>v s. modified_at (ms ! i) = Some v \<and> t v = Inr s
                            \<and> map_of d ''modified_at'' = Some (JStr s)))))"
proof -
  from models_success [OF assms] obtain r ds
    where r: "ollama_list ol = Inr r"
      and ds: "map_models t (models_or_empty r) = Inr ds"
      and fs: "fs = [(''success'', JBool True), (''models'', JArr ds)]"
    by auto
  have sent: "map_of fs ''models'' = Some (JArr ds)" using fs by simp
  have "case models r of
           None \<Rightarrow> ds = []
         | Some ms \<Rightarrow>
             length ds = length ms
             \<and> (\<forall>i<length ms. \<exists>d. ds ! i = JObj d
                   \<and> fst ` set d \<subseteq> {''name'', ''modified_at'', ''size'', ''digest''}
                   \<and> map_of d ''name'' = name (ms ! i)
                   \<and> map_of d ''size'' = size_bytes (ms ! i)
                   \<and> map_of d ''digest'' = digest (ms ! i)
                   \<and> ((\<not> truthy (modified_at (ms ! i)) \<and> map_of d ''modified_at'' = None)
                      \<or> (\<exists>v s. modified_at (ms ! i) = Some v \<and> t v = Inr s
                            \<and> map_of d ''modified_at'' = Some (JStr s))))"
  proof (cases "models r")
    case None
    with ds show ?thesis by (simp add: models_or_empty_def)
  next
    case (Some ms)
    with ds have ms: "map_models t ms = Inr ds" by (simp add: models_or_empty_def)
    from map_models_Inr [OF ms] have len: "length ds = length ms"
      and ent: "\<forall>i<length ms. model_entry t (ms ! i) = Inr (ds ! i)"
      by simp_all
    have "\<forall>i<length ms. \<exists>d. ds ! i = JObj d
                   \<and> fst ` set d \<subseteq> {''name'', ''modified_at'', ''size'', ''digest''}
                   \<and> map_of d ''name'' = name (ms ! i)
                   \<and> map_of d ''size'' = size_bytes (ms ! i)
                   \<and> map_of d ''digest'' = digest (ms ! i)
                   \<and> ((\<not> truthy (modified_at (ms ! i)) \<and> map_of d ''modified_at'' = None)
                      \<or> (\<exists>v s. modified_at (ms ! i) = Some v \<and> t v = Inr s
                            \<and> map_of d ''modified_at'' = Some (JStr s)))"
    proof (intro allI impI)
      fix i assume "i < length ms"
      with ent have "model_entry t (ms ! i) = Inr (ds ! i)" by simp
      from model_entry_Inr [OF this] show "\<exists>d. ds ! i = JObj d
                   \<and> fst ` set d \<subseteq> {''name'', ''modified_at'', ''size'', ''digest''}
                   \<and> map_of d ''name'' = name (ms ! i)
                   \<and> map_of d ''size'' = size_bytes (ms ! i)
                   \<and> map_of d ''digest'' = digest (ms ! i)
                   \<and> ((\<not> truthy (modified_at (ms ! i)) \<and> map_of d ''modified_at'' = None)
                      \<or> (\<exists>v s. modified_at (ms ! i) = Some v \<and> t v = Inr s
                            \<and> map_of d ''modified_at'' = Some (JStr s)))" .
    qed
    with len Some show ?thesis by simp
  qed
  with r sent show ?thesis by blast
qed

theorem C8_models_fields_preserved_witness:
  "body (response (get_api_models sample_toISOString sample_ollama new_response))
     = Some (JObj [(''success'', JBool True),
                   (''models'', JArr
                      [JObj [(''name'', JStr ''llama3.1''),
                             (''modified_at'', JStr ''2024-01-01T00:00:00.000Z''),
                             (''size'', JNum 1234567890),
                             (''digest'', JStr ''sha256:abc'')],
                       JObj [(''name'', JStr ''mistral''),
                             (''size'', JNum 42),
                             (''digest'', JStr ''sha256:def'')]])])
   \<and> (\<exists>ds. length ds = length sample_models
          \<and> (\<exists>d. ds ! 0 = JObj d \<and> map_of d ''name'' = name (sample_models ! 0)
                   \<and> map_of d ''size'' = size_bytes (sample_models ! 0)
                   \<and> map_of d ''digest'' = digest (sample_models ! 0))
          \<and> (\<exists>d. ds ! 1 = JObj d \<and> map_of d ''name'' = name (sample_models ! 1)
                   \<and> map_of d ''size'' = size_bytes (sample_models ! 1)
                   \<and> map_of d ''digest'' = digest (sample_models ! 1)))
   \<and> body (response (get_api_models sample_toISOString bare_ollama new_response))
     = Some (JObj [(''success'', JBool True), (''models'', JArr [])])"
proof -
  let ?fs = "[(''success'', JBool True),
                   (''models'', JArr
                      [JObj [(''name'', JStr ''llama3.1''),
                             (''modified_at'', JStr ''2024-01-01T00:00:00.000Z''),
                             (''size'', JNum 1234567890),
                             (''digest'', JStr ''sha256:abc'')],
                       JObj [(''name'', JStr ''mistral''),
                             (''size'', JNum 42),
                             (''digest'', JStr ''sha256:def'')]])]"
  have h1: "ollama_list sample_ollama = Inr \<lparr>models = Some sample_models\<rparr>"
    by (simp add: sample_ollama_def)
  have h2: "body (response (get_api_models sample_toISOString sample_ollama new_response))
     = Some (JObj ?fs)"
    by (simp add: get_api_models_def sample_ollama_def models_or_empty_def sample_models_def
        model_entry_def iso_or_undefined_def sample_toISOString_def send_json_def)
  have h3: "map_of ?fs ''success'' = Some (JBool True)" by simp
  have l: "length sample_models = 2" by (simp add: sample_models_def)
  from C8_models_fields_preserved [OF h2 h3] obtain r ds where
    r: "ollama_list sample_ollama = Inr r"
    and c: "case models r of
           None \<Rightarrow> ds = []
         | Some ms \<Rightarrow>
             length ds = length ms
             \<and> (\<forall>i<length ms. \<exists>d. ds ! i = JObj d
                   \<and> fst ` set d \<subseteq> {''name'', ''modified_at'', ''size'', ''digest''}
                   \<and> map_of d ''name'' = name (ms ! i)
                   \<and> map_of d ''size'' = size_bytes (ms ! i)
                   \<and> map_of d ''digest'' = digest (ms ! i)
                   \<and> ((\<not> truthy (modified_at (ms ! i)) \<and> map_of d ''modified_at'' = None)
                      \<or> (\<exists>v s. modified_at (ms ! i) = Some v \<and> sample_toISOString v = Inr s
                            \<and> map_of d ''modified_at'' = Some (JStr s))))"
    by blast
  from r h1 have "r = \<lparr>models = Some sample_models\<rparr>" by simp
  then have "models r = Some sample_models" by simp
  with c have len: "length ds = length sample_models"
    and ent: "\<forall>i<length sample_models. \<exists>d. ds ! i = JObj d
            \<and> map_of d ''name'' = name (sample_models ! i)
            \<and> map_of d ''size'' = size_bytes (sample_models ! i)
            \<and> map_of d ''digest'' = digest (sample_models ! i)"
    by auto
  from ent l have e0: "\<exists>d. ds ! 0 = JObj d \<and> map_of d ''name'' = name (sample_models ! 0)
                   \<and> map_of d ''size'' = size_bytes (sample_models ! 0)
                   \<and> map_of d ''digest'' = digest (sample_models ! 0)" by simp
  from ent l have e1: "\<exists>d. ds ! 1 = JObj d \<and> map_of d ''name'' = name (sample_models ! 1)
                   \<and> map_of d ''size'' = size_bytes (sample_models ! 1)
                   \<and> map_of d ''digest'' = digest (sample_models ! 1)" by simp
  obtain gs where g2: "body (response (get_api_models sample_toISOString bare_ollama new_response))
     = Some (JObj gs)" and g3: "map_of gs ''success'' = Some (JBool True)"
    and gs: "gs = [(''success'', JBool True), (''models'', JArr [])]"
    by (simp add: get_api_models_def bare_ollama_def models_or_empty_def send_json_def)
  have g1: "ollama_list bare_ollama = Inr \<lparr>models = None\<rparr>"
    by (simp add: bare_ollama_def)
  from C8_models_fields_preserved [OF g2 g3] obtain q es where
    q: "ollama_list bare_ollama = Inr q"
    and es: "map_of gs ''models'' = Some (JArr es)"
    and e: "case models q of
           None \<Rightarrow> es = []
         | Some ms \<Rightarrow>
             length es = length ms
             \<and> (\<forall>i<length ms. \<exists>d. es ! i = JObj d
                   \<and> fst ` set d \<subseteq> {''name'', ''modified_at'', ''size'', ''digest''}
                   \<and> map_of d ''name'' = name (ms ! i)
                   \<and> map_of d ''size'' = size_bytes (ms ! i)
                   \<and> map_of d ''digest'' = digest (ms ! i)
                   \<and> ((\<not> truthy (modified_at (ms ! i)) \<and> map_of d ''modified_at'' = None)
                      \<or> (\<exists>v s. modified_at (ms ! i) = Some v \<and> sample_toISOString v = Inr s
                            \<and> map_of d ''modified_at'' = Some (JStr s))))"
    by blast
  from q g1 have "q = \<lparr>models = None\<rparr>" by simp
  then have "models q = None" by simp
  with e have "es = []" by simp
  with es have "map_of gs ''models'' = Some (JArr [])" by simp
  with g2 gs have b: "body (response (get_api_models sample_toISOString bare_ollama new_response))
     = Some (JObj [(''success'', JBool True), (''models'', JArr [])])" by simp
  from h2 len e0 e1 b show ?thesis by blast
qed

subsection \<open>C9: an empty conversation passes the validation\<close>

text \<open>C9. A body with no \<^verbatim>\<open>message\<close> field and \<^verbatim>\<open>messages\<close> set to the empty array is not
  answered 400: the adapter's chat operation is called with no turns.\<close>

theorem C9_empty_messages_array_accepted:
  assumes "map_of b ''message'' = None" and "map_of b ''messages'' = Some (JArr [])"
    and "status res = 200"
  shows "calls (post_api_chat t ol b res)
           = [Chat \<lparr>model = (case map_of b ''model'' of None \<Rightarrow> JStr ''llama3.1'' | Some v \<Rightarrow> v),
                    messages = [], stream = False\<rparr>]
       \<and> status (response (post_api_chat t ol b res)) \<noteq> 400"
proof -
  from assms(2) have acc: "truthy (map_of b ''message'') \<or> truthy (map_of b ''messages'')"
    by simp
  have "calls (post_api_chat t ol b res)
           = [Chat \<lparr>model = (case map_of b ''model'' of None \<Rightarrow> JStr ''llama3.1'' | Some v \<Rightarrow> v),
                    messages = [], stream = False\<rparr>]"
    using assms(1,2) by (simp add: chat_calls [OF acc] chatMessages_def)
  moreover have "status (response (post_api_chat t ol b res)) \<noteq> 400"
    using chat_status_accepted [OF acc, of t ol res] assms(3) by auto
  ultimately show ?thesis by simp
qed

theorem C9_empty_messages_array_accepted_witness:
  "map_of [(''messages'', JArr []), (''model'', JStr ''mistral'')] ''message'' = None
   \<and> map_of [(''messages'', JArr []), (''model'', JStr ''mistral'')] ''messages'' = Some (JArr [])
   \<and> calls (post_api_chat sample_toISOString sample_ollama
        [(''messages'', JArr []), (''model'', JStr ''mistral'')] new_response)
     = [Chat \<lparr>model = JStr ''mistral'', messages = [], stream = False\<rparr>]
   \<and> status (response (post_api_chat sample_toISOString sample_ollama
        [(''messages'', JArr []), (''model'', JStr ''mistral'')] new_response)) \<noteq> 400"
proof -
  let ?b = "[(''messages'', JArr []), (''model'', JStr ''mistral'')]"
  have h1: "map_of ?b ''message'' = None" by simp
  have h2: "map_of ?b ''messages'' = Some (JArr [])" by simp
  have h3: "status new_response = 200" by (simp add: new_response_def)
  show ?thesis
    using h1 h2 C9_empty_messages_array_accepted [OF h1 h2 h3, of sample_toISOString sample_ollama]
    by simp
qed

subsection \<open>C10: unmatched routes\<close>

text \<open>C10, as the code has it. A request that is not an \<^verbatim>\<open>OPTIONS\<close> request, whose body the
  JSON parser accepted and which matches no registered route is answered 404 with the body
  \<^verbatim>\<open>{ success:false, error:"Not found", message:"Route <method> <path> not found" }\<close>.\<close>

theorem C10_unmatched_route_404:
  assumes "req_method req \<noteq> ''OPTIONS''" and "parsed_body req = Inr b"
    and "matched_routes matches req = []"
  shows "status (response (app matches t now ol req)) = 404
       \<and> body (response (app matches t now ol req))
         = Some (JObj [(''success'', JBool False),
                       (''error'', JStr ''Not found''),
                       (''message'', JStr (''Route '' @ req_method req @ '' '' @ path req @ '' not found''))])"
  using assms(1,2)
  by (simp add: app_def Let_def no_route_dispatch [OF assms(3)] request_logging_def
      not_found_def send_json_def)

theorem C10_unmatched_route_404_witness:
  "req_method \<lparr>req_method = ''DELETE'', path = ''/api/chat'', parsed_body = Inr []\<rparr> \<noteq> ''OPTIONS''
   \<and> matched_routes exact_match
       \<lparr>req_method = ''DELETE'', path = ''/api/chat'', parsed_body = Inr []\<rparr> = []
   \<and> status (response (app exact_match sample_toISOString ''2024-01-01T00:00:00.000Z'' sample_ollama
        \<lparr>req_method = ''DELETE'', path = ''/api/chat'', parsed_body = Inr []\<rparr>)) = 404
   \<and> body (response (app exact_match sample_toISOString ''2024-01-01T00:00:00.000Z'' sample_ollama
        \<lparr>req_method = ''DELETE'', path = ''/api/chat'', parsed_body = Inr []\<rparr>))
     = Some (JObj [(''success'', JBool False),
                   (''error'', JStr ''Not found''),
                   (''message'', JStr ''Route DELETE /api/chat not found'')])"
proof -
  let ?req = "\<lparr>req_method = ''DELETE'', path = ''/api/chat'', parsed_body = Inr []\<rparr>"
  have h1: "req_method ?req \<noteq> ''OPTIONS''" by simp
  have h2: "parsed_body ?req = Inr []" by simp
  have h3: "matched_routes exact_match ?req = []"
    by (simp add: matched_routes_def routes_def exact_match_def)
  show ?thesis
    using h1 h3 C10_unmatched_route_404 [OF h1 h2 h3, of sample_toISOString
        "''2024-01-01T00:00:00.000Z''" sample_ollama]
    by simp
qed

text \<open>C10 as worded covers every request that matches no route. The body parser runs
  before the routes for every path: when it rejects the body of \<^verbatim>\<open>POST /nope\<close>, the
  request goes to the error handler and is answered 500.\<close>

theorem C10_counterexample:
  "req_method \<lparr>req_method = ''POST'', path = ''/nope'', parsed_body = Inl ''Unexpected end of JSON input''\<rparr>
     \<noteq> ''OPTIONS''
   \<and> matched_routes exact_match
       \<lparr>req_method = ''POST'', path = ''/nope'', parsed_body = Inl ''Unexpected end of JSON input''\<rparr> = []
   \<and> status (response (app exact_match sample_toISOString ''2024-01-01T00:00:00.000Z'' sample_ollama
       \<lparr>req_method = ''POST'', path = ''/nope'', parsed_body = Inl ''Unexpected end of JSON input''\<rparr>)) = 500
   \<and> body (response (app exact_match sample_toISOString ''2024-01-01T00:00:00.000Z'' sample_ollama
       \<lparr>req_method = ''POST'', path = ''/nope'', parsed_body = Inl ''Unexpected end of JSON input''\<rparr>))
     = Some (JObj [(''success'', JBool False),
                   (''error'', JStr ''Internal server error''),
                   (''message'', JStr ''Unexpected end of JSON input'')])"
  by (simp add: app_def Let_def error_handler_def send_json_def matched_routes_def routes_def
      exact_match_def)

end
